theory Spec2Isabelle
  imports Complex_Main
begin

section \<open>Text\<close>

text \<open>
  A Python \<open>str\<close> is modelled by the bytes of its UTF-8 encoding, as a \<^typ>\<open>string\<close>.
  Equality and the substring test \<open>in\<close> agree on code points and on their encodings.
  \<open>str.lower\<close> is modelled on the ASCII letters, which it maps from \<open>A\<close>-\<open>Z\<close> to
  \<open>a\<close>-\<open>z\<close>; every other byte is kept. All keywords and labels the program compares a
  lower-cased text with are ASCII.
\<close>

definition lower_char :: "char \<Rightarrow> char" where
  "lower_char c =
     (if (65::nat) \<le> of_char c \<and> of_char c \<le> (90::nat) then char_of (of_char c + (32::nat)) else c)"

definition str_lower :: "string \<Rightarrow> string" where
  "str_lower s = map lower_char s"

fun is_prefix :: "string \<Rightarrow> string \<Rightarrow> bool" where
  "is_prefix [] s = True"
| "is_prefix (c # cs) [] = False"
| "is_prefix (c # cs) (d # ds) = (c = d \<and> is_prefix cs ds)"

text \<open>\<open>str_contains sub s\<close> is Python's \<open>sub in s\<close>.\<close>

fun str_contains :: "string \<Rightarrow> string \<Rightarrow> bool" where
  "str_contains sub [] = is_prefix sub []"
| "str_contains sub (c # cs) = (is_prefix sub (c # cs) \<or> str_contains sub cs)"

text \<open>\<open>join sep xs\<close> is Python's \<open>sep.join(xs)\<close>.\<close>

fun join :: "string \<Rightarrow> string list \<Rightarrow> string" where
  "join sep [] = []"
| "join sep [x] = x"
| "join sep (x # y # ys) = x @ sep @ join sep (y # ys)"

definition newline :: string where
  "newline = [CHR 0x0A]"

subsection \<open>The literals of the source\<close>

text \<open>Emoji of the literals, as their UTF-8 bytes.\<close>

definition emoji_warning :: string where \<comment> \<open>U+26A0 U+FE0F\<close>
  "emoji_warning = [CHR 0xE2, CHR 0x9A, CHR 0xA0, CHR 0xEF, CHR 0xB8, CHR 0x8F]"

definition emoji_rain_cloud :: string where \<comment> \<open>U+1F327 U+FE0F\<close>
  "emoji_rain_cloud = [CHR 0xF0, CHR 0x9F, CHR 0x8C, CHR 0xA7, CHR 0xEF, CHR 0xB8, CHR 0x8F]"

definition emoji_heart :: string where \<comment> \<open>U+2764 U+FE0F\<close>
  "emoji_heart = [CHR 0xE2, CHR 0x9D, CHR 0xA4, CHR 0xEF, CHR 0xB8, CHR 0x8F]"

definition emoji_snowflake :: string where \<comment> \<open>U+2744 U+FE0F\<close>
  "emoji_snowflake = [CHR 0xE2, CHR 0x9D, CHR 0x84, CHR 0xEF, CHR 0xB8, CHR 0x8F]"

definition emoji_chart :: string where \<comment> \<open>U+1F4CA\<close>
  "emoji_chart = [CHR 0xF0, CHR 0x9F, CHR 0x93, CHR 0x8A]"

definition emoji_droplet :: string where \<comment> \<open>U+1F4A7\<close>
  "emoji_droplet = [CHR 0xF0, CHR 0x9F, CHR 0x92, CHR 0xA7]"

definition emoji_thermometer :: string where \<comment> \<open>U+1F321 U+FE0F\<close>
  "emoji_thermometer = [CHR 0xF0, CHR 0x9F, CHR 0x8C, CHR 0xA1, CHR 0xEF, CHR 0xB8, CHR 0x8F]"

definition emoji_sun :: string where \<comment> \<open>U+1F31E\<close>
  "emoji_sun = [CHR 0xF0, CHR 0x9F, CHR 0x8C, CHR 0x9E]"

definition emoji_mask :: string where \<comment> \<open>U+1F637\<close>
  "emoji_mask = [CHR 0xF0, CHR 0x9F, CHR 0x98, CHR 0xB7]"

definition emoji_blossom :: string where \<comment> \<open>U+1F33C\<close>
  "emoji_blossom = [CHR 0xF0, CHR 0x9F, CHR 0x8C, CHR 0xBC]"

definition emoji_dash :: string where \<comment> \<open>U+1F4A8\<close>
  "emoji_dash = [CHR 0xF0, CHR 0x9F, CHR 0x92, CHR 0xA8]"

definition emoji_cross :: string where \<comment> \<open>U+274C\<close>
  "emoji_cross = [CHR 0xE2, CHR 0x9D, CHR 0x8C]"

definition emoji_check :: string where \<comment> \<open>U+2705\<close>
  "emoji_check = [CHR 0xE2, CHR 0x9C, CHR 0x85]"

definition emoji_cup :: string where \<comment> \<open>U+1F964\<close>
  "emoji_cup = [CHR 0xF0, CHR 0x9F, CHR 0xA5, CHR 0xA4]"

definition emoji_salad :: string where \<comment> \<open>U+1F957\<close>
  "emoji_salad = [CHR 0xF0, CHR 0x9F, CHR 0xA5, CHR 0x97]"

definition emoji_apple :: string where \<comment> \<open>U+1F34E\<close>
  "emoji_apple = [CHR 0xF0, CHR 0x9F, CHR 0x8D, CHR 0x8E]"

definition emoji_salt :: string where \<comment> \<open>U+1F9C2\<close>
  "emoji_salt = [CHR 0xF0, CHR 0x9F, CHR 0xA7, CHR 0x82]"

definition emoji_clock :: string where \<comment> \<open>U+23F0\<close>
  "emoji_clock = [CHR 0xE2, CHR 0x8F, CHR 0xB0]"

definition emoji_shirt :: string where \<comment> \<open>U+1F455\<close>
  "emoji_shirt = [CHR 0xF0, CHR 0x9F, CHR 0x91, CHR 0x95]"

definition emoji_lotion :: string where \<comment> \<open>U+1F9F4\<close>
  "emoji_lotion = [CHR 0xF0, CHR 0x9F, CHR 0xA7, CHR 0xB4]"

definition emoji_sunglasses :: string where \<comment> \<open>U+1F576\<close>
  "emoji_sunglasses = [CHR 0xF0, CHR 0x9F, CHR 0x95, CHR 0xB6]"

definition emoji_tangerine :: string where \<comment> \<open>U+1F34A\<close>
  "emoji_tangerine = [CHR 0xF0, CHR 0x9F, CHR 0x8D, CHR 0x8A]"

definition emoji_plate :: string where \<comment> \<open>U+1F37D U+FE0F\<close>
  "emoji_plate = [CHR 0xF0, CHR 0x9F, CHR 0x8D, CHR 0xBD, CHR 0xEF, CHR 0xB8, CHR 0x8F]"

definition emoji_sandwich :: string where \<comment> \<open>U+1F96A\<close>
  "emoji_sandwich = [CHR 0xF0, CHR 0x9F, CHR 0xA5, CHR 0xAA]"

definition emoji_umbrella :: string where \<comment> \<open>U+2614\<close>
  "emoji_umbrella = [CHR 0xE2, CHR 0x98, CHR 0x94]"

definition emoji_coat :: string where \<comment> \<open>U+1F9E5\<close>
  "emoji_coat = [CHR 0xF0, CHR 0x9F, CHR 0xA7, CHR 0xA5]"

definition emoji_shoe :: string where \<comment> \<open>U+1F45F\<close>
  "emoji_shoe = [CHR 0xF0, CHR 0x9F, CHR 0x91, CHR 0x9F]"

definition emoji_hat :: string where \<comment> \<open>U+1F452\<close>
  "emoji_hat = [CHR 0xF0, CHR 0x9F, CHR 0x91, CHR 0x92]"

definition emoji_hospital :: string where \<comment> \<open>U+1F3E5\<close>
  "emoji_hospital = [CHR 0xF0, CHR 0x9F, CHR 0x8F, CHR 0xA5]"

definition emoji_runner :: string where \<comment> \<open>U+1F3C3\<close>
  "emoji_runner = [CHR 0xF0, CHR 0x9F, CHR 0x8F, CHR 0x83]"

definition emoji_bulb :: string where \<comment> \<open>U+1F4A1\<close>
  "emoji_bulb = [CHR 0xF0, CHR 0x9F, CHR 0x92, CHR 0xA1]"

text \<open>The advisory strings of \<open>get_health_recommendations\<close> (lines 57 to 91).\<close>

definition msg_asthma_humidity :: string where
  "msg_asthma_humidity =
     emoji_warning @ '' High humidity may affect your asthma. Consider staying indoors.''"

definition msg_asthma_damp :: string where
  "msg_asthma_damp =
     emoji_rain_cloud @ '' Damp conditions may trigger asthma. Keep inhaler handy.''"

definition msg_heart_hot :: string where
  "msg_heart_hot =
     emoji_heart @ '' High temperature may strain your heart. Stay in air-conditioned spaces.''"

definition msg_heart_cold :: string where
  "msg_heart_cold =
     emoji_snowflake @ '' Cold weather can affect blood pressure. Stay warm and avoid overexertion.''"

definition msg_diabetes_heat :: string where
  "msg_diabetes_heat =
     emoji_chart @ '' Heat can affect blood sugar levels. Check levels more frequently.''"

definition msg_diabetes_humidity :: string where
  "msg_diabetes_humidity =
     emoji_droplet @ '' High humidity can affect insulin absorption. Monitor closely.''"

definition msg_sensitive_cold :: string where
  "msg_sensitive_cold =
     emoji_thermometer @ '' Temperature is low and you'' @ [CHR 0x27]
       @ ''re sensitive to cold. Bundle up well.''"

definition msg_sensitive_heat :: string where
  "msg_sensitive_heat =
     emoji_sun @ '' Temperature is high and you'' @ [CHR 0x27]
       @ ''re heat-sensitive. Stay hydrated and in shade.''"

definition msg_sensitive_humidity :: string where
  "msg_sensitive_humidity =
     emoji_droplet @ '' High humidity detected. Use dehumidifier indoors if possible.''"

definition msg_sensitive_air :: string where
  "msg_sensitive_air =
     emoji_mask @ '' Poor air quality. Consider wearing a mask outdoors.''"

definition msg_pollen :: string where
  "msg_pollen = emoji_blossom @ '' High pollen risk today. Take antihistamines if needed.''"

definition msg_dust :: string where
  "msg_dust = emoji_dash @ '' Windy conditions may stir up dust. Wear a mask if needed.''"

text \<open>The lists of \<open>get_comprehensive_recommendations\<close> (lines 110 to 177).\<close>

definition act_avoid_strenuous :: string where
  "act_avoid_strenuous = emoji_cross @ '' Avoid strenuous outdoor activities''"

definition act_sightseeing :: string where
  "act_sightseeing = emoji_check @ '' Sightseeing''"

definition hot_activities :: "string list" where
  "hot_activities =
     [act_avoid_strenuous,
      emoji_check @ '' Indoor swimming'',
      emoji_check @ '' Indoor gym workouts'',
      emoji_check @ '' Mall walking'',
      emoji_check @ '' Indoor sports'']"

definition hot_food :: "string list" where
  "hot_food =
     [emoji_cup @ '' Drink plenty of water (at least 3-4 liters)'',
      emoji_salad @ '' Light meals with high water content'',
      emoji_apple @ '' Fresh fruits and vegetables'',
      emoji_salt @ '' Electrolyte-rich drinks'',
      emoji_cross @ '' Avoid heavy, spicy foods'']"

definition hot_general :: "string list" where
  "hot_general =
     [emoji_clock @ '' Plan activities early morning or late evening'',
      emoji_shirt @ '' Wear light, breathable clothing'',
      emoji_lotion @ '' Use sunscreen (SPF 50+)'',
      emoji_sunglasses @ '' Wear sunglasses and a hat'']"

definition warm_activities :: "string list" where
  "warm_activities =
     [emoji_check @ '' Swimming'',
      emoji_check @ '' Early morning/late evening walks'',
      emoji_check @ '' Beach activities (with proper protection)'',
      emoji_warning @ '' Moderate outdoor activities'']"

definition warm_food :: "string list" where
  "warm_food =
     [emoji_cup @ '' Stay well hydrated'',
      emoji_salad @ '' Fresh salads'',
      emoji_tangerine @ '' Seasonal fruits'',
      emoji_cup @ '' Sports drinks for outdoor activities'']"

definition mild_activities :: "string list" where
  "mild_activities =
     [emoji_check @ '' Most outdoor activities are comfortable'',
      emoji_check @ '' Walking, jogging, cycling'',
      emoji_check @ '' Outdoor sports'',
      act_sightseeing]"

definition mild_food :: "string list" where
  "mild_food =
     [emoji_cup @ '' Regular water intake'',
      emoji_plate @ '' Regular balanced meals'',
      emoji_sandwich @ '' Pack snacks for outdoor activities'']"

definition rain_general :: "string list" where
  "rain_general =
     [emoji_umbrella @ '' Carry an umbrella'',
      emoji_coat @ '' Wear waterproof clothing'',
      emoji_shoe @ '' Wear appropriate footwear'']"

definition clear_general :: "string list" where
  "clear_general =
     [emoji_sunglasses @ '' Wear sunglasses'',
      emoji_lotion @ '' Apply sunscreen'',
      emoji_hat @ '' Wear a hat for sun protection'']"

definition msg_mask :: string where
  "msg_mask = emoji_mask @ '' Consider wearing a mask due to poor air quality''"

text \<open>The headings of \<open>format_recommendations\<close> (lines 187 to 202).\<close>

definition health_heading :: string where
  "health_heading = emoji_hospital @ '' Health Recommendations:''"

definition activities_heading :: string where
  "activities_heading = emoji_runner @ '' Activity Recommendations:''"

definition food_heading :: string where
  "food_heading = emoji_plate @ '' Food & Hydration Advice:''"

definition general_heading :: string where
  "general_heading = emoji_bulb @ '' General Advice:''"

section \<open>Data\<close>

text \<open>
  \<open>weather_data\<close> is a dictionary with the keys \<open>temp\<close>, \<open>humidity\<close>, \<open>description\<close>,
  \<open>air_quality\<close> and \<open>wind_speed\<close>; a field is \<open>None\<close> when its key is absent. The
  temperature and the wind speed are numbers of the weather provider, each modelled by the
  real number it denotes; the rules compare the temperature with integer constants only.
  The humidity and the air quality index are integers.
\<close>

record weather_data =
  temp :: "real option"
  humidity :: "int option"
  description :: "string option"
  air_quality :: "int option"
  wind_speed :: "real option"

text \<open>
  A user profile is a dictionary from keys to lists of labels, in the order of its keys.
  The argument \<open>user_profile\<close> is \<open>None\<close> or such a dictionary.
\<close>

type_synonym user_profile = "(string \<times> string list) list"

text \<open>The dictionary \<open>recommendations\<close> of lines 101 to 106, with its four keys.\<close>

record recommendations =
  health_advice :: "string list"
  activities :: "string list"
  food_suggestions :: "string list"
  general_advice :: "string list"

datatype error = KeyError string

text \<open>\<open>d[key]\<close> on a field of \<open>weather_data\<close>.\<close>

fun getitem :: "'a option \<Rightarrow> string \<Rightarrow> error + 'a" where
  "getitem None key = Inl (KeyError key)"
| "getitem (Some v) key = Inr v"

text \<open>
  An exception ends the function that raises it and every caller: \<open>raising m f\<close> goes on
  with \<open>f\<close> on the value of \<open>m\<close>, or returns the error of \<open>m\<close>.
\<close>

definition raising :: "error + 'a \<Rightarrow> ('a \<Rightarrow> error + 'b) \<Rightarrow> error + 'b" where
  "raising m f = (case m of Inl e \<Rightarrow> Inl e | Inr v \<Rightarrow> f v)"

text \<open>\<open>user_profile.get(key, [])\<close>.\<close>

definition profile_get :: "user_profile \<Rightarrow> string \<Rightarrow> string list" where
  "profile_get p key = (case map_of p key of None \<Rightarrow> [] | Some v \<Rightarrow> v)"

text \<open>
  The truth value of \<open>user_profile\<close> in \<open>if user_profile:\<close>: \<open>None\<close> and the empty
  dictionary are false.
\<close>

fun truthy :: "user_profile option \<Rightarrow> bool" where
  "truthy None = False"
| "truthy (Some p) = (p \<noteq> [])"

text \<open>\<open>weather_data.get("air_quality", 0)\<close>.\<close>

definition get_air_quality :: "weather_data \<Rightarrow> int" where
  "get_air_quality wd = (case air_quality wd of None \<Rightarrow> 0 | Some a \<Rightarrow> a)"

section \<open>get_health_recommendations\<close>

text \<open>The body of the loop over \<open>health_conditions\<close> (lines 54 to 69).\<close>

definition health_condition_step ::
  "real \<Rightarrow> int \<Rightarrow> string \<Rightarrow> string \<Rightarrow> string list \<Rightarrow> string list" where
  "health_condition_step t h conditions condition recs =
     (let condition = str_lower condition in
      if condition = ''asthma'' then
        (let recs = (if h > 70 then recs @ [msg_asthma_humidity] else recs) in
         if str_contains ''rain'' conditions \<or> str_contains ''mist'' conditions
         then recs @ [msg_asthma_damp] else recs)
      else if condition = ''heart condition'' then
        (if t > 30 then recs @ [msg_heart_hot]
         else if t < 5 then recs @ [msg_heart_cold]
         else recs)
      else if condition = ''diabetes'' then
        (let recs = (if t > 30 then recs @ [msg_diabetes_heat] else recs) in
         if h > 80 then recs @ [msg_diabetes_humidity] else recs)
      else recs)"

text \<open>The body of the loop over \<open>weather_sensitivities\<close> (lines 73 to 81).\<close>

definition sensitivity_step ::
  "real \<Rightarrow> int \<Rightarrow> int \<Rightarrow> string \<Rightarrow> string list \<Rightarrow> string list" where
  "sensitivity_step t h aq sensitivity recs =
     (let sensitivity = str_lower sensitivity in
      if sensitivity = ''cold'' \<and> t < 10 then recs @ [msg_sensitive_cold]
      else if sensitivity = ''heat'' \<and> t > 28 then recs @ [msg_sensitive_heat]
      else if sensitivity = ''humidity'' \<and> h > 70 then recs @ [msg_sensitive_humidity]
      else if sensitivity = ''air quality'' \<and> aq > 100 then recs @ [msg_sensitive_air]
      else recs)"

text \<open>The body of the loop over \<open>allergies\<close> (lines 85 to 91).\<close>

definition allergy_step :: "string \<Rightarrow> string \<Rightarrow> string list \<Rightarrow> string list" where
  "allergy_step conditions allergy recs =
     (let allergy = str_lower allergy in
      if allergy = ''pollen'' then
        (if str_contains ''clear'' conditions \<or> str_contains ''sunny'' conditions
         then recs @ [msg_pollen] else recs)
      else if allergy = ''dust'' then
        (if str_contains ''windy'' conditions then recs @ [msg_dust] else recs)
      else recs)"

text \<open>
  The three loops in sequence on the list \<open>recommendations\<close> (lines 53 to 91), run when
  \<open>user_profile\<close> is true.
\<close>

definition profile_recommendations ::
  "real \<Rightarrow> int \<Rightarrow> string \<Rightarrow> int \<Rightarrow> user_profile \<Rightarrow> string list" where
  "profile_recommendations t h conditions aq p =
     (let recs = [];
          recs = fold (health_condition_step t h conditions)
                   (profile_get p ''health_conditions'') recs;
          recs = fold (sensitivity_step t h aq)
                   (profile_get p ''weather_sensitivities'') recs;
          recs = fold (allergy_step conditions) (profile_get p ''allergies'') recs
      in recs)"

definition get_health_recommendations ::
  "weather_data \<Rightarrow> user_profile option \<Rightarrow> error + string list" where
  "get_health_recommendations wd up =
     raising (getitem (temp wd) ''temp'') (\<lambda>t.
     raising (getitem (humidity wd) ''humidity'') (\<lambda>h.
     raising (getitem (description wd) ''description'') (\<lambda>d.
       Inr (case up of
              None \<Rightarrow> []
            | Some p \<Rightarrow>
                if p \<noteq> []
                then profile_recommendations t h (str_lower d) (get_air_quality wd) p
                else []))))"

section \<open>get_comprehensive_recommendations\<close>

text \<open>The temperature bands (lines 109 to 154).\<close>

definition temperature_band :: "real \<Rightarrow> recommendations \<Rightarrow> recommendations" where
  "temperature_band t recs =
     (if t > 35 then
        recs\<lparr>activities := activities recs @ hot_activities,
             food_suggestions := food_suggestions recs @ hot_food,
             general_advice := general_advice recs @ hot_general\<rparr>
      else if 25 \<le> t \<and> t \<le> 35 then
        recs\<lparr>activities := activities recs @ warm_activities,
             food_suggestions := food_suggestions recs @ warm_food\<rparr>
      else
        recs\<lparr>activities := activities recs @ mild_activities,
             food_suggestions := food_suggestions recs @ mild_food\<rparr>)"

text \<open>The advice for the weather condition (lines 162 to 173).\<close>

definition condition_advice :: "string \<Rightarrow> recommendations \<Rightarrow> recommendations" where
  "condition_advice conditions recs =
     (if str_contains ''rain'' conditions then
        recs\<lparr>general_advice := general_advice recs @ rain_general\<rparr>
      else if str_contains ''clear'' conditions then
        recs\<lparr>general_advice := general_advice recs @ clear_general\<rparr>
      else recs)"

text \<open>
  The test of the comprehension of lines 178 and 179:
  \<open>any(outdoor in act.lower() for outdoor in ['outdoor', 'outside', 'beach'])\<close>.
\<close>

definition outdoor_keywords :: "string list" where
  "outdoor_keywords = [''outdoor'', ''outside'', ''beach'']"

definition mentions_outdoor :: "string \<Rightarrow> bool" where
  "mentions_outdoor act = list_ex (\<lambda>outdoor. str_contains outdoor (str_lower act)) outdoor_keywords"

text \<open>The air quality rule (lines 176 to 179).\<close>

definition air_quality_advice :: "int \<Rightarrow> recommendations \<Rightarrow> recommendations" where
  "air_quality_advice aq recs =
     (if aq > 100 then
        recs\<lparr>health_advice := health_advice recs @ [msg_mask],
             activities := filter (\<lambda>act. \<not> mentions_outdoor act) (activities recs)\<rparr>
      else recs)"

definition empty_recommendations :: recommendations where
  "empty_recommendations =
     \<lparr>health_advice = [], activities = [], food_suggestions = [], general_advice = []\<rparr>"

definition get_comprehensive_recommendations ::
  "weather_data \<Rightarrow> user_profile option \<Rightarrow> error + recommendations" where
  "get_comprehensive_recommendations wd up =
     raising (getitem (temp wd) ''temp'') (\<lambda>t.
     raising (getitem (humidity wd) ''humidity'') (\<lambda>h.
     raising (getitem (description wd) ''description'') (\<lambda>d.
     let recs = temperature_band t empty_recommendations in
     raising (if truthy up
              then raising (get_health_recommendations wd up) (\<lambda>health_recs.
                     Inr (recs\<lparr>health_advice := health_advice recs @ health_recs\<rparr>))
              else Inr recs) (\<lambda>recs.
       Inr (air_quality_advice (get_air_quality wd)
              (condition_advice (str_lower d) recs))))))"

section \<open>format_recommendations\<close>

text \<open>The list \<open>sections\<close> at line 205.\<close>

definition format_sections :: "recommendations \<Rightarrow> string list" where
  "format_sections recs =
     (let sections = [];
          sections = (if health_advice recs \<noteq> []
                      then sections @ [health_heading] @ health_advice recs @ [[]]
                      else sections);
          sections = (if activities recs \<noteq> []
                      then sections @ [activities_heading] @ activities recs @ [[]]
                      else sections);
          sections = (if food_suggestions recs \<noteq> []
                      then sections @ [food_heading] @ food_suggestions recs @ [[]]
                      else sections);
          sections = (if general_advice recs \<noteq> []
                      then sections @ [general_heading] @ general_advice recs
                      else sections)
      in sections)"

definition format_recommendations :: "recommendations \<Rightarrow> string" where
  "format_recommendations recs = join newline (format_sections recs)"

text \<open>
  Lines 251 and 252 of \<open>get_weather_with_health_context\<close>: the advisory is generated and
  then formatted.
\<close>

definition formatted_recommendations ::
  "weather_data \<Rightarrow> user_profile option \<Rightarrow> error + string" where
  "formatted_recommendations wd up =
     raising (get_comprehensive_recommendations wd up) (\<lambda>recommendations.
       Inr (format_recommendations recommendations))"

section \<open>The rendering as the specification words it\<close>

text \<open>
  The specification's account of \<open>format\<close>: the populated categories in the order health,
  activities, food, general, each as its heading line followed by its entries, with a blank
  line after each rendered section but the last.
\<close>

definition rendered_section :: "string \<Rightarrow> string list \<Rightarrow> string list list" where
  "rendered_section heading entries = (if entries = [] then [] else [heading # entries])"

definition specified_sections :: "recommendations \<Rightarrow> string list list" where
  "specified_sections recs =
     rendered_section health_heading (health_advice recs)
     @ rendered_section activities_heading (activities recs)
     @ rendered_section food_heading (food_suggestions recs)
     @ rendered_section general_heading (general_advice recs)"

fun separated :: "string list list \<Rightarrow> string list" where
  "separated [] = []"
| "separated [s] = s"
| "separated (s # s' # ss) = s @ [[]] @ separated (s' # ss)"

definition specified_format :: "recommendations \<Rightarrow> string" where
  "specified_format recs = join newline (separated (specified_sections recs))"

section \<open>The list objects of a call\<close>

text \<open>
  The lists of the source are objects that are changed in place. In this second model of
  the two functions they live in a store: \<open>cells\<close> holds the list at each address and
  \<open>next_addr\<close> is the first address not in use. The store is all the mutable state that
  goes from one call to the next. The reading and the profile are only read by the source,
  and stay values.
\<close>

record store =
  cells :: "nat \<Rightarrow> string list"
  next_addr :: nat

text \<open>A list display or a comprehension makes a new object.\<close>

definition new_list :: "string list \<Rightarrow> store \<Rightarrow> nat \<times> store" where
  "new_list xs s =
     (next_addr s, s\<lparr>cells := (cells s)(next_addr s := xs), next_addr := Suc (next_addr s)\<rparr>)"

text \<open>
  \<open>append\<close> and \<open>extend\<close> change the object at an address: \<open>in_place a f\<close> replaces the
  list at \<open>a\<close> by \<open>f\<close> of it.
\<close>

definition in_place :: "nat \<Rightarrow> (string list \<Rightarrow> string list) \<Rightarrow> store \<Rightarrow> store" where
  "in_place a f s = s\<lparr>cells := (cells s)(a := f (cells s a))\<rparr>"

text \<open>The dictionary \<open>recommendations\<close>, from its four keys to the addresses of their lists.\<close>

record recommendations_refs =
  health_advice_ref :: nat
  activities_ref :: nat
  food_suggestions_ref :: nat
  general_advice_ref :: nat

text \<open>The three loops of lines 53 to 91 on the list object at \<open>a\<close>.\<close>

definition profile_recommendations_st ::
  "real \<Rightarrow> int \<Rightarrow> string \<Rightarrow> int \<Rightarrow> user_profile \<Rightarrow> nat \<Rightarrow> store \<Rightarrow> store" where
  "profile_recommendations_st t h conditions aq p a s =
     (let s = fold (\<lambda>condition. in_place a (health_condition_step t h conditions condition))
                (profile_get p ''health_conditions'') s;
          s = fold (\<lambda>sensitivity. in_place a (sensitivity_step t h aq sensitivity))
                (profile_get p ''weather_sensitivities'') s;
          s = fold (\<lambda>allergy. in_place a (allergy_step conditions allergy))
                (profile_get p ''allergies'') s
      in s)"

text \<open>
  \<open>get_health_recommendations\<close> on the store: line 46 makes the list, and the function
  returns its address.
\<close>

definition get_health_recommendations_st ::
  "weather_data \<Rightarrow> user_profile option \<Rightarrow> store \<Rightarrow> error + nat \<times> store" where
  "get_health_recommendations_st wd up s =
     (case new_list [] s of (a, s) \<Rightarrow>
      raising (getitem (temp wd) ''temp'') (\<lambda>t.
      raising (getitem (humidity wd) ''humidity'') (\<lambda>h.
      raising (getitem (description wd) ''description'') (\<lambda>d.
        Inr (a, case up of
                  None \<Rightarrow> s
                | Some p \<Rightarrow>
                    if p \<noteq> []
                    then profile_recommendations_st t h (str_lower d) (get_air_quality wd) p a s
                    else s)))))"

text \<open>The temperature bands (lines 109 to 154) on the lists of the dictionary.\<close>

definition temperature_band_st :: "real \<Rightarrow> recommendations_refs \<Rightarrow> store \<Rightarrow> store" where
  "temperature_band_st t refs s =
     (if t > 35 then
        in_place (general_advice_ref refs) (\<lambda>l. l @ hot_general)
          (in_place (food_suggestions_ref refs) (\<lambda>l. l @ hot_food)
             (in_place (activities_ref refs) (\<lambda>l. l @ hot_activities) s))
      else if 25 \<le> t \<and> t \<le> 35 then
        in_place (food_suggestions_ref refs) (\<lambda>l. l @ warm_food)
          (in_place (activities_ref refs) (\<lambda>l. l @ warm_activities) s)
      else
        in_place (food_suggestions_ref refs) (\<lambda>l. l @ mild_food)
          (in_place (activities_ref refs) (\<lambda>l. l @ mild_activities) s))"

text \<open>The advice for the weather condition (lines 162 to 173).\<close>

definition condition_advice_st :: "string \<Rightarrow> recommendations_refs \<Rightarrow> store \<Rightarrow> store" where
  "condition_advice_st conditions refs s =
     (if str_contains ''rain'' conditions then
        in_place (general_advice_ref refs) (\<lambda>l. l @ rain_general) s
      else if str_contains ''clear'' conditions then
        in_place (general_advice_ref refs) (\<lambda>l. l @ clear_general) s
      else s)"

text \<open>
  The air quality rule (lines 176 to 179): the comprehension makes a new list, and the key
  \<open>activities\<close> is bound to it.
\<close>

definition air_quality_advice_st ::
  "int \<Rightarrow> recommendations_refs \<Rightarrow> store \<Rightarrow> recommendations_refs \<times> store" where
  "air_quality_advice_st aq refs s =
     (if aq > 100 then
        (let s = in_place (health_advice_ref refs) (\<lambda>l. l @ [msg_mask]) s in
         case new_list (filter (\<lambda>act. \<not> mentions_outdoor act) (cells s (activities_ref refs))) s
         of (a, s) \<Rightarrow> (refs\<lparr>activities_ref := a\<rparr>, s))
      else (refs, s))"

text \<open>
  \<open>get_comprehensive_recommendations\<close> on the store: the four lists of lines 102 to 105
  are new objects, and line 159 extends the health advice by the list that
  \<open>get_health_recommendations\<close> returned.
\<close>

definition get_comprehensive_recommendations_st ::
  "weather_data \<Rightarrow> user_profile option \<Rightarrow> store \<Rightarrow> error + recommendations_refs \<times> store" where
  "get_comprehensive_recommendations_st wd up s =
     raising (getitem (temp wd) ''temp'') (\<lambda>t.
     raising (getitem (humidity wd) ''humidity'') (\<lambda>h.
     raising (getitem (description wd) ''description'') (\<lambda>d.
     case new_list [] s of (ha, s) \<Rightarrow>
     case new_list [] s of (aa, s) \<Rightarrow>
     case new_list [] s of (fa, s) \<Rightarrow>
     case new_list [] s of (ga, s) \<Rightarrow>
     let refs = \<lparr>health_advice_ref = ha, activities_ref = aa,
                 food_suggestions_ref = fa, general_advice_ref = ga\<rparr>;
         s = temperature_band_st t refs s
     in raising (if truthy up
                 then raising (get_health_recommendations_st wd up s) (\<lambda>(health_recs, s).
                        Inr (in_place (health_advice_ref refs) (\<lambda>l. l @ cells s health_recs) s))
                 else Inr s) (\<lambda>s.
          Inr (air_quality_advice_st (get_air_quality wd) refs
                 (condition_advice_st (str_lower d) refs s))))))"

text \<open>The four sequences of a returned dictionary, read in a store.\<close>

definition contents :: "recommendations_refs \<Rightarrow> store \<Rightarrow> recommendations" where
  "contents refs s =
     \<lparr>health_advice = cells s (health_advice_ref refs),
      activities = cells s (activities_ref refs),
      food_suggestions = cells s (food_suggestions_ref refs),
      general_advice = cells s (general_advice_ref refs)\<rparr>"

text \<open>
  Two calls with the same reading and profile, the second on the store that the first
  left. The result is what the first dictionary holds when the first call returns, what it
  holds after the second call, and what the second dictionary holds when the second call
  returns; or the exception of the first call that raises.
\<close>

definition two_calls ::
  "weather_data \<Rightarrow> user_profile option \<Rightarrow> store
     \<Rightarrow> error + recommendations \<times> recommendations \<times> recommendations"
  where
  "two_calls wd up s =
     raising (get_comprehensive_recommendations_st wd up s) (\<lambda>(refs1, s1).
     raising (get_comprehensive_recommendations_st wd up s1) (\<lambda>(refs2, s2).
       Inr (contents refs1 s1, contents refs1 s2, contents refs2 s2)))"

section \<open>The result on a reading that has its three required keys\<close>

lemmas emoji_defs =
  emoji_warning_def emoji_rain_cloud_def emoji_heart_def emoji_snowflake_def
  emoji_chart_def emoji_droplet_def emoji_thermometer_def emoji_sun_def
  emoji_mask_def emoji_blossom_def emoji_dash_def emoji_cross_def
  emoji_check_def emoji_cup_def emoji_salad_def emoji_apple_def
  emoji_salt_def emoji_clock_def emoji_shirt_def emoji_lotion_def
  emoji_sunglasses_def emoji_tangerine_def emoji_plate_def emoji_sandwich_def
  emoji_umbrella_def emoji_coat_def emoji_shoe_def emoji_hat_def
  emoji_hospital_def emoji_runner_def emoji_bulb_def

lemma get_health_recommendations_present:
  assumes "temp wd = Some t" and "humidity wd = Some h" and "description wd = Some d"
  shows "get_health_recommendations wd up =
           Inr (case up of
                  None \<Rightarrow> []
                | Some p \<Rightarrow>
                    if p \<noteq> []
                    then profile_recommendations t h (str_lower d) (get_air_quality wd) p
                    else [])"
  using assms by (simp add: get_health_recommendations_def raising_def)

lemma profile_recommendations_empty: "profile_recommendations t h conditions aq [] = []"
  by (simp add: profile_recommendations_def profile_get_def)

text \<open>An empty profile adds what its three loops add, which is nothing.\<close>

lemma get_health_recommendations_value:
  assumes "temp wd = Some t" and "humidity wd = Some h" and "description wd = Some d"
  shows "get_health_recommendations wd up =
           Inr (case up of
                  None \<Rightarrow> []
                | Some p \<Rightarrow> profile_recommendations t h (str_lower d) (get_air_quality wd) p)"
  using assms
  by (simp add: get_health_recommendations_present profile_recommendations_empty
      split: option.split)

lemma get_comprehensive_recommendations_present:
  assumes "temp wd = Some t" and "humidity wd = Some h" and "description wd = Some d"
  shows "get_comprehensive_recommendations wd up =
           Inr (air_quality_advice (get_air_quality wd)
                  (condition_advice (str_lower d)
                     ((temperature_band t empty_recommendations)
                        \<lparr>health_advice :=
                           (case up of
                              None \<Rightarrow> []
                            | Some p \<Rightarrow>
                                profile_recommendations t h (str_lower d)
                                  (get_air_quality wd) p)\<rparr>)))"
proof -
  have empty: "health_advice (temperature_band t empty_recommendations) = []"
    by (simp add: temperature_band_def empty_recommendations_def)
  show ?thesis
  proof (cases "truthy up")
    case True
    then show ?thesis
      using assms empty
      by (simp add: get_comprehensive_recommendations_def raising_def
          get_health_recommendations_value [OF assms])
  next
    case False
    then have "(case up of None \<Rightarrow> []
                | Some p \<Rightarrow> profile_recommendations t h (str_lower d) (get_air_quality wd) p) = []"
      by (cases up) (simp_all add: profile_recommendations_empty)
    moreover have "(temperature_band t empty_recommendations)\<lparr>health_advice := []\<rparr>
        = temperature_band t empty_recommendations"
      by (simp add: temperature_band_def empty_recommendations_def)
    ultimately show ?thesis
      using assms False
      by (simp add: get_comprehensive_recommendations_def raising_def)
  qed
qed

section \<open>The parts of the result\<close>

lemma band_activities:
  "activities (temperature_band t empty_recommendations) =
     (if t > 35 then hot_activities
      else if 25 \<le> t \<and> t \<le> 35 then warm_activities else mild_activities)"
  by (simp add: temperature_band_def empty_recommendations_def)

lemma band_food:
  "food_suggestions (temperature_band t empty_recommendations) =
     (if t > 35 then hot_food else if 25 \<le> t \<and> t \<le> 35 then warm_food else mild_food)"
  by (simp add: temperature_band_def empty_recommendations_def)

lemma band_general:
  "general_advice (temperature_band t empty_recommendations) =
     (if t > 35 then hot_general else [])"
  by (simp add: temperature_band_def empty_recommendations_def)

lemma activities_air_quality_advice:
  "activities (air_quality_advice aq (condition_advice conditions recs)) =
     (if aq > 100 then filter (\<lambda>act. \<not> mentions_outdoor act) (activities recs)
      else activities recs)"
  by (simp add: air_quality_advice_def condition_advice_def)

lemma food_air_quality_advice:
  "food_suggestions (air_quality_advice aq (condition_advice conditions recs)) =
     food_suggestions recs"
  by (simp add: air_quality_advice_def condition_advice_def)

lemma health_air_quality_advice:
  "health_advice (air_quality_advice aq (condition_advice conditions recs)) =
     health_advice recs @ (if aq > 100 then [msg_mask] else [])"
  by (simp add: air_quality_advice_def condition_advice_def)

lemma general_air_quality_advice:
  "general_advice (air_quality_advice aq (condition_advice conditions recs)) =
     general_advice recs
     @ (if str_contains ''rain'' conditions then rain_general
        else if str_contains ''clear'' conditions then clear_general else [])"
  by (simp add: air_quality_advice_def condition_advice_def)

section \<open>The filter on the activities of each band\<close>

lemma avoid_strenuous_mentions_outdoor: "mentions_outdoor act_avoid_strenuous"
  by code_simp

lemma hot_activities_filtered:
  "filter (\<lambda>act. \<not> mentions_outdoor act) hot_activities =
     [emoji_check @ '' Indoor swimming'', emoji_check @ '' Indoor gym workouts'',
      emoji_check @ '' Mall walking'', emoji_check @ '' Indoor sports'']"
  by code_simp

lemma warm_activities_filtered:
  "filter (\<lambda>act. \<not> mentions_outdoor act) warm_activities =
     [emoji_check @ '' Swimming'', emoji_check @ '' Early morning/late evening walks'']"
  by code_simp

lemma mild_activities_filtered:
  "filter (\<lambda>act. \<not> mentions_outdoor act) mild_activities =
     [emoji_check @ '' Walking, jogging, cycling'', act_sightseeing]"
  by code_simp

lemma hot_activities_no_sightseeing:
  "list_all (\<lambda>act. \<not> str_contains ''sightseeing'' (str_lower act)) hot_activities"
  by code_simp

lemma avoid_strenuous_in_hot: "act_avoid_strenuous \<in> set hot_activities"
  by (simp add: hot_activities_def)

lemma food_templates_distinct:
  "hot_food \<noteq> warm_food" "hot_food \<noteq> mild_food" "warm_food \<noteq> mild_food"
  by (simp_all add: hot_food_def warm_food_def mild_food_def)


lemma food_templates_disjoint: "distinct (hot_food @ warm_food @ mild_food)"
  by (simp add: hot_food_def warm_food_def mild_food_def emoji_defs)

section \<open>Activities of the hot band\<close>

text \<open>
  C1 (amended). For every reading with a temperature above 35 and every optional profile,
  no entry of the activities recommends sightseeing, and the activities contain the entry
  "Avoid strenuous outdoor activities" exactly when the air quality index is at most 100
  (or absent): above 100 the air quality filter removes the entry, whose text contains
  "outdoor".
\<close>

theorem hot_band_activities:
  assumes "temp wd = Some t" and "humidity wd = Some h" and "description wd = Some d"
    and "t > 35"
  shows "\<exists>recs. get_comprehensive_recommendations wd up = Inr recs
           \<and> (act_avoid_strenuous \<in> set (activities recs) \<longleftrightarrow> \<not> get_air_quality wd > 100)
           \<and> (\<forall>act \<in> set (activities recs). \<not> str_contains ''sightseeing'' (str_lower act))"
proof -
  let ?acts = "if get_air_quality wd > 100
               then filter (\<lambda>act. \<not> mentions_outdoor act) hot_activities else hot_activities"
  have avoid: "act_avoid_strenuous \<in> set ?acts \<longleftrightarrow> \<not> get_air_quality wd > 100"
    using avoid_strenuous_mentions_outdoor avoid_strenuous_in_hot by simp
  have "set ?acts \<subseteq> set hot_activities"
    by auto
  then have sight: "\<forall>act \<in> set ?acts. \<not> str_contains ''sightseeing'' (str_lower act)"
    using hot_activities_no_sightseeing unfolding list_all_iff by blast
  have "activities (air_quality_advice (get_air_quality wd)
          (condition_advice (str_lower d)
             ((temperature_band t empty_recommendations)\<lparr>health_advice := hs\<rparr>))) = ?acts"
    for hs
    using \<open>t > 35\<close> by (simp add: activities_air_quality_advice band_activities)
  with avoid sight show ?thesis
    unfolding get_comprehensive_recommendations_present [OF assms(1-3)] by simp
qed

text \<open>The reading of the specification's first example, with its asthma profile.\<close>

theorem hot_band_activities_witness:
  "(38::real) > 35
   \<and> (\<exists>recs. get_comprehensive_recommendations
          \<lparr>temp = Some 38, humidity = Some 75, description = Some ''clear sky'',
           air_quality = Some 40, wind_speed = Some 3\<rparr>
          (Some [(''health_conditions'', [''asthma''])]) = Inr recs
        \<and> act_avoid_strenuous \<in> set (activities recs))"
  using hot_band_activities [of
      "\<lparr>temp = Some 38, humidity = Some 75, description = Some ''clear sky'',
        air_quality = Some 40, wind_speed = Some 3\<rparr>"
      38 75 "''clear sky''" "Some [(''health_conditions'', [''asthma''])]"]
  by (auto simp add: get_air_quality_def)

text \<open>
  At 40 degrees and an air quality index of 150 the activities are the four indoor entries:
  the entry "Avoid strenuous outdoor activities" is not among them.
\<close>

theorem hot_band_poor_air_counterexample:
  "(40::real) > 35
   \<and> get_comprehensive_recommendations
       \<lparr>temp = Some 40, humidity = Some 50, description = Some ''haze'',
        air_quality = Some 150, wind_speed = Some 3\<rparr> None
     = Inr \<lparr>health_advice = [msg_mask],
            activities =
              [emoji_check @ '' Indoor swimming'', emoji_check @ '' Indoor gym workouts'',
               emoji_check @ '' Mall walking'', emoji_check @ '' Indoor sports''],
            food_suggestions = hot_food,
            general_advice = hot_general\<rparr>
   \<and> act_avoid_strenuous \<notin>
       set [emoji_check @ '' Indoor swimming'', emoji_check @ '' Indoor gym workouts'',
            emoji_check @ '' Mall walking'', emoji_check @ '' Indoor sports'']"
proof -
  have "str_lower ''haze'' = ''haze''"
    by code_simp
  then show ?thesis
    by (simp add: get_comprehensive_recommendations_present [of _ 40 50 "''haze''"]
        get_air_quality_def air_quality_advice_def condition_advice_def temperature_band_def
        empty_recommendations_def hot_activities_filtered act_avoid_strenuous_def
        emoji_cross_def emoji_check_def)
qed

section \<open>The air quality filter\<close>

lemma mentions_outdoor_iff:
  "mentions_outdoor act \<longleftrightarrow>
     str_contains ''outdoor'' (str_lower act) \<or> str_contains ''outside'' (str_lower act)
     \<or> str_contains ''beach'' (str_lower act)"
  by (simp add: mentions_outdoor_def outdoor_keywords_def)

text \<open>
  C2. For every reading with an air quality index above 100 and every optional profile, the
  final activities are the activities of the temperature band with the entries removed
  whose lower-cased text contains "outdoor", "outside" or "beach": no final entry contains
  one of the three keywords, and every entry of the band that contains none of them is
  kept, in the order of the band.
\<close>

theorem air_quality_filter:
  assumes "temp wd = Some t" and "humidity wd = Some h" and "description wd = Some d"
    and "get_air_quality wd > 100"
  shows "\<exists>recs. get_comprehensive_recommendations wd up = Inr recs
           \<and> activities recs =
               filter (\<lambda>act. \<not> mentions_outdoor act)
                 (activities (temperature_band t empty_recommendations))
           \<and> (\<forall>act \<in> set (activities recs).
                 \<not> str_contains ''outdoor'' (str_lower act)
                 \<and> \<not> str_contains ''outside'' (str_lower act)
                 \<and> \<not> str_contains ''beach'' (str_lower act))
           \<and> (\<forall>act \<in> set (activities (temperature_band t empty_recommendations)).
                 \<not> str_contains ''outdoor'' (str_lower act)
                 \<and> \<not> str_contains ''outside'' (str_lower act)
                 \<and> \<not> str_contains ''beach'' (str_lower act)
                 \<longrightarrow> act \<in> set (activities recs))"
proof -
  let ?band = "activities (temperature_band t empty_recommendations)"
  have "activities (air_quality_advice (get_air_quality wd)
          (condition_advice (str_lower d)
             ((temperature_band t empty_recommendations)\<lparr>health_advice := hs\<rparr>)))
        = filter (\<lambda>act. \<not> mentions_outdoor act) ?band" for hs
    using assms(4) by (simp add: activities_air_quality_advice)
  then show ?thesis
    unfolding get_comprehensive_recommendations_present [OF assms(1-3)]
    by (simp add: mentions_outdoor_iff)
qed

text \<open>
  The warm band at an air quality index of 150: the entries "Beach activities (with proper
  protection)" and "Moderate outdoor activities" are removed, the other two are kept.
\<close>

theorem air_quality_filter_witness:
  "(150::int) > 100
   \<and> (\<exists>recs. get_comprehensive_recommendations
          \<lparr>temp = Some 30, humidity = Some 50, description = Some ''haze'',
           air_quality = Some 150, wind_speed = Some 3\<rparr> None = Inr recs
        \<and> activities recs =
            [emoji_check @ '' Swimming'', emoji_check @ '' Early morning/late evening walks''])"
  using air_quality_filter [of
      "\<lparr>temp = Some 30, humidity = Some 50, description = Some ''haze'',
        air_quality = Some 150, wind_speed = Some 3\<rparr>"
      30 50 "''haze''" None]
  by (auto simp add: get_air_quality_def band_activities warm_activities_filtered)

section \<open>Health advice without a profile\<close>

text \<open>
  C3. For every reading, when the profile is absent, the health advice is empty if the air
  quality index is at most 100 (or absent), and is the one mask advisory of the air quality
  rule if the index is above 100.
\<close>

theorem health_advice_without_profile:
  assumes "temp wd = Some t" and "humidity wd = Some h" and "description wd = Some d"
  shows "\<exists>recs. get_comprehensive_recommendations wd None = Inr recs
           \<and> health_advice recs = (if get_air_quality wd > 100 then [msg_mask] else [])"
  unfolding get_comprehensive_recommendations_present [OF assms]
  by (simp add: health_air_quality_advice)

text \<open>The reading of the specification's second example, and the same reading at index 150.\<close>

theorem health_advice_without_profile_witness:
  "(\<exists>recs. get_comprehensive_recommendations
        \<lparr>temp = Some 20, humidity = Some 50, description = Some ''light rain'',
         air_quality = Some 0, wind_speed = Some 3\<rparr> None = Inr recs
      \<and> health_advice recs = [])
   \<and> (\<exists>recs. get_comprehensive_recommendations
        \<lparr>temp = Some 20, humidity = Some 50, description = Some ''light rain'',
         air_quality = Some 150, wind_speed = Some 3\<rparr> None = Inr recs
      \<and> health_advice recs = [msg_mask])"
  using health_advice_without_profile [of
      "\<lparr>temp = Some 20, humidity = Some 50, description = Some ''light rain'',
        air_quality = Some 0, wind_speed = Some 3\<rparr>" 20 50 "''light rain''"]
    health_advice_without_profile [of
      "\<lparr>temp = Some 20, humidity = Some 50, description = Some ''light rain'',
        air_quality = Some 150, wind_speed = Some 3\<rparr>" 20 50 "''light rain''"]
  by (simp add: get_air_quality_def)

section \<open>The food suggestions of the three bands\<close>

text \<open>
  C4. For every reading and every optional profile, the food suggestions are one of the
  three templates, chosen by the temperature alone: the hot template exactly when the
  temperature is above 35, the warm template exactly when it is from 25 to 35, and the mild
  template exactly when it is below 25. No entry belongs to two templates.
\<close>

theorem food_template_by_band:
  assumes "temp wd = Some t" and "humidity wd = Some h" and "description wd = Some d"
  shows "\<exists>recs. get_comprehensive_recommendations wd up = Inr recs
           \<and> (food_suggestions recs = hot_food \<longleftrightarrow> t > 35)
           \<and> (food_suggestions recs = warm_food \<longleftrightarrow> 25 \<le> t \<and> t \<le> 35)
           \<and> (food_suggestions recs = mild_food \<longleftrightarrow> t < 25)
           \<and> distinct (hot_food @ warm_food @ mild_food)"
proof -
  have "food_suggestions (air_quality_advice (get_air_quality wd)
          (condition_advice (str_lower d)
             ((temperature_band t empty_recommendations)\<lparr>health_advice := hs\<rparr>)))
        = (if t > 35 then hot_food else if 25 \<le> t \<and> t \<le> 35 then warm_food else mild_food)"
    for hs
    by (simp add: food_air_quality_advice band_food)
  then show ?thesis
    unfolding get_comprehensive_recommendations_present [OF assms]
    using food_templates_distinct food_templates_disjoint
    by (auto simp add: not_less)
qed

text \<open>A reading of minus 5 degrees has the mild template.\<close>

theorem food_template_by_band_witness:
  "\<exists>recs. get_comprehensive_recommendations
       \<lparr>temp = Some (- 5), humidity = Some 50, description = Some ''snow'',
        air_quality = None, wind_speed = Some 3\<rparr> None = Inr recs
     \<and> food_suggestions recs = mild_food"
  using food_template_by_band [of
      "\<lparr>temp = Some (- 5), humidity = Some 50, description = Some ''snow'',
        air_quality = None, wind_speed = Some 3\<rparr>" "- 5" 50 "''snow''" None]
  by auto

section \<open>The warnings for a heart condition\<close>

lemmas message_defs =
  msg_asthma_humidity_def msg_asthma_damp_def msg_heart_hot_def msg_heart_cold_def
  msg_diabetes_heat_def msg_diabetes_humidity_def msg_sensitive_cold_def
  msg_sensitive_heat_def msg_sensitive_humidity_def msg_sensitive_air_def
  msg_pollen_def msg_dust_def msg_mask_def

lemma heart_hot_distinct:
  "msg_heart_hot \<notin> {msg_asthma_humidity, msg_asthma_damp, msg_heart_cold, msg_diabetes_heat,
     msg_diabetes_humidity, msg_sensitive_cold, msg_sensitive_heat, msg_sensitive_humidity,
     msg_sensitive_air, msg_pollen, msg_dust, msg_mask}"
  by (simp add: message_defs emoji_defs)

lemma heart_cold_distinct:
  "msg_heart_cold \<notin> {msg_asthma_humidity, msg_asthma_damp, msg_heart_hot, msg_diabetes_heat,
     msg_diabetes_humidity, msg_sensitive_cold, msg_sensitive_heat, msg_sensitive_humidity,
     msg_sensitive_air, msg_pollen, msg_dust, msg_mask}"
  by (simp add: message_defs emoji_defs)

text \<open>What one pass of the first loop appends for a label that is a heart condition.\<close>

lemma health_condition_step_heart:
  assumes "str_lower c = ''heart condition''"
  shows "health_condition_step t h conditions c recs =
           recs @ (if t > 30 then [msg_heart_hot] else if t < 5 then [msg_heart_cold] else [])"
  using assms by (simp add: health_condition_step_def)

lemma health_condition_step_other:
  assumes "str_lower c \<noteq> ''heart condition''"
  shows "count_list (health_condition_step t h conditions c recs) msg_heart_hot
           = count_list recs msg_heart_hot"
    and "count_list (health_condition_step t h conditions c recs) msg_heart_cold
           = count_list recs msg_heart_cold"
  using assms heart_hot_distinct heart_cold_distinct
  by (auto simp add: health_condition_step_def Let_def)

lemma health_condition_step_count:
  "count_list (health_condition_step t h conditions c recs) msg_heart_hot =
     count_list recs msg_heart_hot
     + (if str_lower c = ''heart condition'' \<and> t > 30 then 1 else 0)"
  "count_list (health_condition_step t h conditions c recs) msg_heart_cold =
     count_list recs msg_heart_cold
     + (if str_lower c = ''heart condition'' \<and> \<not> t > 30 \<and> t < 5 then 1 else 0)"
  using heart_hot_distinct heart_cold_distinct
  by (cases "str_lower c = ''heart condition''";
      simp add: health_condition_step_heart health_condition_step_other)+

lemma health_conditions_loop_count:
  "count_list (fold (health_condition_step t h conditions) cs recs) msg_heart_hot =
     count_list recs msg_heart_hot
     + (if t > 30 then length (filter (\<lambda>c. str_lower c = ''heart condition'') cs) else 0)"
  "count_list (fold (health_condition_step t h conditions) cs recs) msg_heart_cold =
     count_list recs msg_heart_cold
     + (if \<not> t > 30 \<and> t < 5
        then length (filter (\<lambda>c. str_lower c = ''heart condition'') cs) else 0)"
  by (induction cs arbitrary: recs; simp add: health_condition_step_count)+

lemma sensitivity_step_count:
  "count_list (sensitivity_step t h aq s recs) msg_heart_hot = count_list recs msg_heart_hot"
  "count_list (sensitivity_step t h aq s recs) msg_heart_cold = count_list recs msg_heart_cold"
  using heart_hot_distinct heart_cold_distinct
  by (auto simp add: sensitivity_step_def Let_def)

lemma sensitivities_loop_count:
  "count_list (fold (sensitivity_step t h aq) ss recs) msg_heart_hot
     = count_list recs msg_heart_hot"
  "count_list (fold (sensitivity_step t h aq) ss recs) msg_heart_cold
     = count_list recs msg_heart_cold"
  by (induction ss arbitrary: recs; simp add: sensitivity_step_count)+

lemma allergy_step_count:
  "count_list (allergy_step conditions a recs) msg_heart_hot = count_list recs msg_heart_hot"
  "count_list (allergy_step conditions a recs) msg_heart_cold = count_list recs msg_heart_cold"
  using heart_hot_distinct heart_cold_distinct
  by (auto simp add: allergy_step_def Let_def)

lemma allergies_loop_count:
  "count_list (fold (allergy_step conditions) as recs) msg_heart_hot
     = count_list recs msg_heart_hot"
  "count_list (fold (allergy_step conditions) as recs) msg_heart_cold
     = count_list recs msg_heart_cold"
  by (induction as arbitrary: recs; simp add: allergy_step_count)+

lemma profile_recommendations_count:
  "count_list (profile_recommendations t h conditions aq p) msg_heart_hot =
     (if t > 30
      then length (filter (\<lambda>c. str_lower c = ''heart condition'')
                    (profile_get p ''health_conditions''))
      else 0)"
  "count_list (profile_recommendations t h conditions aq p) msg_heart_cold =
     (if \<not> t > 30 \<and> t < 5
      then length (filter (\<lambda>c. str_lower c = ''heart condition'')
                    (profile_get p ''health_conditions''))
      else 0)"
  by (simp_all add: profile_recommendations_def allergies_loop_count
      sensitivities_loop_count health_conditions_loop_count)

text \<open>
  C5 (amended). For every reading and every profile, each entry of the health conditions
  that is "heart condition" in lower case appends at most one warning: the hot warning
  exactly when the temperature is above 30, otherwise the cold warning exactly when it is
  below 5, the hot check first. The health advice therefore holds the hot warning once per
  such entry when the temperature is above 30 and never otherwise, and the cold warning
  once per such entry when the temperature is below 5 and never otherwise; the two never
  occur together, and a profile with one such entry has at most one warning.
\<close>

theorem heart_condition_warnings:
  assumes "temp wd = Some t" and "humidity wd = Some h" and "description wd = Some d"
  shows "(\<forall>c recs0. str_lower c = ''heart condition'' \<longrightarrow>
            health_condition_step t h (str_lower d) c recs0 =
              recs0 @ (if t > 30 then [msg_heart_hot]
                       else if t < 5 then [msg_heart_cold] else []))
         \<and> (\<exists>recs. get_comprehensive_recommendations wd (Some p) = Inr recs
              \<and> count_list (health_advice recs) msg_heart_hot =
                  (if t > 30
                   then length (filter (\<lambda>c. str_lower c = ''heart condition'')
                                 (profile_get p ''health_conditions''))
                   else 0)
              \<and> count_list (health_advice recs) msg_heart_cold =
                  (if \<not> t > 30 \<and> t < 5
                   then length (filter (\<lambda>c. str_lower c = ''heart condition'')
                                 (profile_get p ''health_conditions''))
                   else 0))"
proof -
  have "msg_mask \<noteq> msg_heart_hot" and "msg_mask \<noteq> msg_heart_cold"
    using heart_hot_distinct heart_cold_distinct by auto
  then show ?thesis
    unfolding get_comprehensive_recommendations_present [OF assms]
    by (simp add: health_air_quality_advice health_condition_step_heart
        profile_recommendations_count)
qed

text \<open>
  The reading of the specification's third example, at 2 degrees with the one label
  "heart condition": the cold warning once, the hot warning not at all.
\<close>

theorem heart_condition_warnings_witness:
  "\<exists>recs. get_comprehensive_recommendations
       \<lparr>temp = Some 2, humidity = Some 40, description = Some ''clear'',
        air_quality = Some 0, wind_speed = Some 3\<rparr>
       (Some [(''health_conditions'', [''heart condition''])]) = Inr recs
     \<and> count_list (health_advice recs) msg_heart_hot = 0
     \<and> count_list (health_advice recs) msg_heart_cold = 1"
proof -
  have "str_lower ''heart condition'' = ''heart condition''"
    by code_simp
  then show ?thesis
    using heart_condition_warnings [of
        "\<lparr>temp = Some 2, humidity = Some 40, description = Some ''clear'',
          air_quality = Some 0, wind_speed = Some 3\<rparr>" 2 40 "''clear''"
        "[(''health_conditions'', [''heart condition''])]"]
    by (auto simp add: profile_get_def)
qed

text \<open>
  Two labels that are both "heart condition" in lower case, at 32 degrees: the hot warning
  is appended twice in one call.
\<close>

theorem heart_condition_twice_counterexample:
  "get_comprehensive_recommendations
     \<lparr>temp = Some 32, humidity = Some 40, description = Some ''haze'',
      air_quality = Some 0, wind_speed = Some 3\<rparr>
     (Some [(''health_conditions'', [''heart condition'', ''Heart Condition''])])
   = Inr \<lparr>health_advice = [msg_heart_hot, msg_heart_hot],
          activities = warm_activities,
          food_suggestions = warm_food,
          general_advice = []\<rparr>"
proof -
  have lower: "str_lower ''heart condition'' = ''heart condition''"
    "str_lower ''Heart Condition'' = ''heart condition''"
    "str_lower ''haze'' = ''haze''"
    by code_simp+
  have "profile_recommendations 32 40 ''haze'' 0
          [(''health_conditions'', [''heart condition'', ''Heart Condition''])]
        = [msg_heart_hot, msg_heart_hot]"
    by (simp add: profile_recommendations_def profile_get_def health_condition_step_heart lower)
  then show ?thesis
    by (simp add: get_comprehensive_recommendations_present [of _ 32 40 "''haze''"] lower
        get_air_quality_def air_quality_advice_def condition_advice_def temperature_band_def
        empty_recommendations_def)
qed

section \<open>The rendering\<close>

lemma join_blank_last: "xs \<noteq> [] \<Longrightarrow> join sep (xs @ [[]]) = join sep xs @ sep"
proof (induction sep xs rule: join.induct)
  case (1 sep)
  then show ?case by simp
next
  case (2 sep x)
  then show ?case by simp
next
  case (3 sep x y ys)
  then show ?case by simp
qed

text \<open>
  The lines of the source's rendering are those of the specification's, and one more blank
  line when the general advice is empty and another category is not.
\<close>

lemma format_sections_specified:
  "format_sections recs =
     separated (specified_sections recs)
     @ (if general_advice recs = [] \<and> specified_sections recs \<noteq> [] then [[]] else [])"
  by (simp add: format_sections_def specified_sections_def rendered_section_def)

lemma separated_nonempty: "ss \<noteq> [] \<Longrightarrow> hd ss \<noteq> [] \<Longrightarrow> separated ss \<noteq> []"
  by (induction ss rule: separated.induct) simp_all

lemma specified_sections_nonempty:
  "specified_sections recs \<noteq> [] \<Longrightarrow> separated (specified_sections recs) \<noteq> []"
  by (rule separated_nonempty)
    (auto simp add: specified_sections_def rendered_section_def split: if_splits)

text \<open>
  C6 (amended). For every advisory, format renders the categories in the order health,
  activities, food, general; each populated category is its heading line followed by its
  entries, one per line, and an empty category contributes nothing. A blank line follows
  each populated health, activities and food category, also when no later category is
  populated, and none follows the general category. So the text is the specification's
  rendering, with blank lines only between sections, when the general advice is populated
  or all four categories are empty (then it is the empty string); otherwise it is that
  rendering followed by one newline.
\<close>

theorem format_recommendations_specified:
  "format_sections recs =
     separated (specified_sections recs)
     @ (if general_advice recs = [] \<and> specified_sections recs \<noteq> [] then [[]] else [])
   \<and> format_recommendations recs =
     specified_format recs
     @ (if general_advice recs = [] \<and> specified_sections recs \<noteq> [] then newline else [])
   \<and> (health_advice recs = [] \<and> activities recs = [] \<and> food_suggestions recs = []
        \<and> general_advice recs = [] \<longrightarrow> format_recommendations recs = [])"
proof -
  have "format_recommendations recs = []"
    if "health_advice recs = []" "activities recs = []" "food_suggestions recs = []"
      "general_advice recs = []"
    using that by (simp add: format_recommendations_def format_sections_def)
  then show ?thesis
    by (simp add: format_recommendations_def specified_format_def format_sections_specified
        join_blank_last specified_sections_nonempty)
qed

text \<open>The four empty categories, and a populated general advice.\<close>

theorem format_recommendations_specified_witness:
  "format_recommendations
     \<lparr>health_advice = [], activities = [], food_suggestions = [], general_advice = []\<rparr> = []
   \<and> format_recommendations
       \<lparr>health_advice = [''a''], activities = [], food_suggestions = [],
        general_advice = [''b'']\<rparr>
     = specified_format
         \<lparr>health_advice = [''a''], activities = [], food_suggestions = [],
          general_advice = [''b'']\<rparr>"
  using format_recommendations_specified [of
      "\<lparr>health_advice = [], activities = [], food_suggestions = [], general_advice = []\<rparr>"]
    format_recommendations_specified [of
      "\<lparr>health_advice = [''a''], activities = [], food_suggestions = [],
        general_advice = [''b'']\<rparr>"]
  by (auto simp add: specified_sections_def rendered_section_def)

text \<open>
  Only the health advice populated: the lines end with a blank line after the last
  rendered section, and the text with a newline that the specification's rendering has not.
\<close>

theorem format_trailing_blank_counterexample:
  "format_sections
     \<lparr>health_advice = [''a''], activities = [], food_suggestions = [], general_advice = []\<rparr>
     = [health_heading, ''a'', []]
   \<and> format_recommendations
       \<lparr>health_advice = [''a''], activities = [], food_suggestions = [], general_advice = []\<rparr>
     = health_heading @ newline @ ''a'' @ newline
   \<and> specified_format
       \<lparr>health_advice = [''a''], activities = [], food_suggestions = [], general_advice = []\<rparr>
     = health_heading @ newline @ ''a''
   \<and> format_recommendations
       \<lparr>health_advice = [''a''], activities = [], food_suggestions = [], general_advice = []\<rparr>
     \<noteq> specified_format
       \<lparr>health_advice = [''a''], activities = [], food_suggestions = [], general_advice = []\<rparr>"
  by (simp add: format_recommendations_def format_sections_def specified_format_def
      specified_sections_def rendered_section_def newline_def)

section \<open>No exception on a reading with its required keys\<close>

text \<open>
  C7. For every reading that has the keys temp, humidity and description (the air quality
  index optional, 0 when absent) and every optional profile, the health recommendations,
  the comprehensive recommendations and their formatted text are all returned: no
  exception is raised. Every function of the model is total, so each call terminates.
\<close>

theorem required_keys_no_exception:
  assumes "temp wd = Some t" and "humidity wd = Some h" and "description wd = Some d"
  shows "\<exists>health_recs recs.
           get_health_recommendations wd up = Inr health_recs
           \<and> get_comprehensive_recommendations wd up = Inr recs
           \<and> formatted_recommendations wd up = Inr (format_recommendations recs)"
  by (simp add: formatted_recommendations_def raising_def
      get_health_recommendations_present [OF assms]
      get_comprehensive_recommendations_present [OF assms])

text \<open>A reading without the key for the air quality index, and an empty dictionary as profile.\<close>

theorem required_keys_no_exception_witness:
  "\<exists>health_recs recs.
     get_health_recommendations
       \<lparr>temp = Some 20, humidity = Some 50, description = Some ''light rain'',
        air_quality = None, wind_speed = None\<rparr> (Some []) = Inr health_recs
     \<and> get_comprehensive_recommendations
         \<lparr>temp = Some 20, humidity = Some 50, description = Some ''light rain'',
          air_quality = None, wind_speed = None\<rparr> (Some []) = Inr recs
     \<and> formatted_recommendations
         \<lparr>temp = Some 20, humidity = Some 50, description = Some ''light rain'',
          air_quality = None, wind_speed = None\<rparr> (Some [])
       = Inr (format_recommendations recs)"
  using required_keys_no_exception [of
      "\<lparr>temp = Some 20, humidity = Some 50, description = Some ''light rain'',
        air_quality = None, wind_speed = None\<rparr>" 20 50 "''light rain''" "Some []"]
  by simp

text \<open>Without a required key the exception is raised, the first missing key first.\<close>

lemma missing_key_raises:
  "temp wd = None \<Longrightarrow> get_comprehensive_recommendations wd up = Inl (KeyError ''temp'')"
  "temp wd = Some t \<Longrightarrow> humidity wd = None \<Longrightarrow>
     get_comprehensive_recommendations wd up = Inl (KeyError ''humidity'')"
  "temp wd = Some t \<Longrightarrow> humidity wd = Some h \<Longrightarrow> description wd = None \<Longrightarrow>
     get_comprehensive_recommendations wd up = Inl (KeyError ''description'')"
  by (simp_all add: get_comprehensive_recommendations_def raising_def)

section \<open>Two calls on the store\<close>

lemma cells_in_place:
  "cells (in_place a f s) b = (if b = a then f (cells s a) else cells s b)"
  by (simp add: in_place_def)

lemma next_addr_in_place: "next_addr (in_place a f s) = next_addr s"
  by (simp add: in_place_def)

lemma in_place_twice: "in_place a g (in_place a f s) = in_place a (g \<circ> f) s"
  by (simp add: in_place_def)

lemma in_place_id: "in_place a (\<lambda>l. l) s = s"
  by (simp add: in_place_def)

text \<open>A loop of changes in place to one object is one change in place, by the loop.\<close>

lemma fold_in_place: "fold (\<lambda>x. in_place a (f x)) xs s = in_place a (fold f xs) s"
proof (induction xs arbitrary: s)
  case Nil
  show ?case by (simp add: in_place_def)
next
  case (Cons x xs)
  then show ?case by (simp add: in_place_twice comp_def)
qed

lemma profile_recommendations_st_in_place:
  "profile_recommendations_st t h conditions aq p a s =
     in_place a
       (\<lambda>l. fold (allergy_step conditions) (profile_get p ''allergies'')
              (fold (sensitivity_step t h aq) (profile_get p ''weather_sensitivities'')
                 (fold (health_condition_step t h conditions)
                    (profile_get p ''health_conditions'') l))) s"
  by (simp add: profile_recommendations_st_def fold_in_place in_place_twice comp_def)

text \<open>The list that \<open>get_health_recommendations\<close> returns is a new object with the advice.\<close>

lemma get_health_recommendations_st_present:
  assumes "temp wd = Some t" and "humidity wd = Some h" and "description wd = Some d"
  shows "get_health_recommendations_st wd up s =
           Inr (next_addr s,
                s\<lparr>cells := (cells s)
                     (next_addr s :=
                        (case up of
                           None \<Rightarrow> []
                         | Some p \<Rightarrow>
                             profile_recommendations t h (str_lower d) (get_air_quality wd) p)),
                  next_addr := Suc (next_addr s)\<rparr>)"
proof (cases up)
  case None
  with assms show ?thesis
    by (simp add: get_health_recommendations_st_def raising_def new_list_def)
next
  case (Some p)
  show ?thesis
  proof (cases "p = []")
    case True
    with assms Some show ?thesis
      by (simp add: get_health_recommendations_st_def raising_def new_list_def
          profile_recommendations_empty)
  next
    case False
    with assms Some show ?thesis
      by (simp add: get_health_recommendations_st_def raising_def new_list_def
          profile_recommendations_st_in_place profile_recommendations_def in_place_def)
  qed
qed

text \<open>Each stage on the store does to the contents what it does in the first model.\<close>

lemma temperature_band_st_contents:
  assumes "distinct [health_advice_ref refs, activities_ref refs, food_suggestions_ref refs,
             general_advice_ref refs]"
  shows "contents refs (temperature_band_st t refs s) = temperature_band t (contents refs s)"
  using assms
  by (simp add: temperature_band_st_def temperature_band_def contents_def cells_in_place)

lemma temperature_band_st_frame:
  assumes "a \<noteq> activities_ref refs" and "a \<noteq> food_suggestions_ref refs"
    and "a \<noteq> general_advice_ref refs"
  shows "cells (temperature_band_st t refs s) a = cells s a"
  using assms by (simp add: temperature_band_st_def cells_in_place)

lemma temperature_band_st_next: "next_addr (temperature_band_st t refs s) = next_addr s"
  by (simp add: temperature_band_st_def next_addr_in_place)

lemma condition_advice_st_contents:
  assumes "distinct [health_advice_ref refs, activities_ref refs, food_suggestions_ref refs,
             general_advice_ref refs]"
  shows "contents refs (condition_advice_st conditions refs s)
           = condition_advice conditions (contents refs s)"
  using assms
  by (simp add: condition_advice_st_def condition_advice_def contents_def cells_in_place)

lemma condition_advice_st_frame:
  assumes "a \<noteq> general_advice_ref refs"
  shows "cells (condition_advice_st conditions refs s) a = cells s a"
  using assms by (simp add: condition_advice_st_def cells_in_place)

lemma condition_advice_st_next:
  "next_addr (condition_advice_st conditions refs s) = next_addr s"
  by (simp add: condition_advice_st_def next_addr_in_place)

lemma air_quality_advice_st_contents:
  assumes "distinct [health_advice_ref refs, activities_ref refs, food_suggestions_ref refs,
             general_advice_ref refs]"
    and "health_advice_ref refs < next_addr s" and "activities_ref refs < next_addr s"
    and "food_suggestions_ref refs < next_addr s" and "general_advice_ref refs < next_addr s"
    and "air_quality_advice_st aq refs s = (refs', s')"
  shows "contents refs' s' = air_quality_advice aq (contents refs s)"
    and "health_advice_ref refs' < next_addr s'" and "activities_ref refs' < next_addr s'"
    and "food_suggestions_ref refs' < next_addr s'" and "general_advice_ref refs' < next_addr s'"
  using assms
  by (auto simp add: air_quality_advice_st_def air_quality_advice_def contents_def
      cells_in_place next_addr_in_place new_list_def Let_def split: if_splits)

lemma air_quality_advice_st_frame:
  assumes "a \<noteq> health_advice_ref refs" and "a < next_addr s"
    and "air_quality_advice_st aq refs s = (refs', s')"
  shows "cells s' a = cells s a"
  using assms
  by (auto simp add: air_quality_advice_st_def cells_in_place next_addr_in_place new_list_def
      Let_def split: if_splits)

text \<open>
  A call on any store returns a dictionary of objects of its own that hold the result of
  the first model, and leaves every object that was there before as it was.
\<close>

lemma get_comprehensive_recommendations_st_present:
  assumes "temp wd = Some t" and "humidity wd = Some h" and "description wd = Some d"
  shows "\<exists>refs' s'.
           get_comprehensive_recommendations_st wd up s = Inr (refs', s')
           \<and> get_comprehensive_recommendations wd up = Inr (contents refs' s')
           \<and> health_advice_ref refs' < next_addr s' \<and> activities_ref refs' < next_addr s'
           \<and> food_suggestions_ref refs' < next_addr s'
           \<and> general_advice_ref refs' < next_addr s'
           \<and> (\<forall>a < next_addr s. cells s' a = cells s a)"
proof -
  define n where "n = next_addr s"
  define refs where
    "refs = \<lparr>health_advice_ref = n, activities_ref = Suc n,
             food_suggestions_ref = Suc (Suc n), general_advice_ref = Suc (Suc (Suc n))\<rparr>"
  define s4 where
    "s4 = s\<lparr>cells := (cells s)(n := [], Suc n := [], Suc (Suc n) := [],
                 Suc (Suc (Suc n)) := []),
            next_addr := Suc (Suc (Suc (Suc n)))\<rparr>"
  define H where
    "H = (case up of
            None \<Rightarrow> []
          | Some p \<Rightarrow> profile_recommendations t h (str_lower d) (get_air_quality wd) p)"
  define s5 where "s5 = temperature_band_st t refs s4"
  define s6 where
    "s6 = (if truthy up
           then in_place n (\<lambda>l. l @ H)
                  (s5\<lparr>cells := (cells s5)(next_addr s5 := H), next_addr := Suc (next_addr s5)\<rparr>)
           else s5)"
  define s7 where "s7 = condition_advice_st (str_lower d) refs s6"
  obtain refs' s' where final: "air_quality_advice_st (get_air_quality wd) refs s7 = (refs', s')"
    by (cases "air_quality_advice_st (get_air_quality wd) refs s7")
  have run: "get_comprehensive_recommendations_st wd up s = Inr (refs', s')"
  proof (cases "truthy up")
    case True
    with assms final show ?thesis
      unfolding s7_def s6_def s5_def s4_def H_def refs_def n_def
      by (simp add: get_comprehensive_recommendations_st_def raising_def new_list_def
          get_health_recommendations_st_present [OF assms] Let_def)
  next
    case False
    with assms final show ?thesis
      unfolding s7_def s6_def s5_def s4_def H_def refs_def n_def
      by (simp add: get_comprehensive_recommendations_st_def raising_def new_list_def Let_def)
  qed
  have dist: "distinct [health_advice_ref refs, activities_ref refs, food_suggestions_ref refs,
                general_advice_ref refs]"
    by (simp add: refs_def)
  have next5: "next_addr s5 = Suc (Suc (Suc (Suc n)))"
    by (simp add: s5_def temperature_band_st_next s4_def)
  have c4: "contents refs s4 = empty_recommendations"
    by (simp add: contents_def refs_def s4_def empty_recommendations_def)
  have c5: "contents refs s5 = temperature_band t empty_recommendations"
    by (simp add: s5_def temperature_band_st_contents [OF dist] c4)
  have health5: "cells s5 n = []"
    using c5 by (simp add: contents_def refs_def temperature_band_def
        empty_recommendations_def split: if_splits)
  have H_empty: "H = []" if "\<not> truthy up"
    using that by (cases up) (simp_all add: H_def profile_recommendations_empty)
  have c6: "contents refs s6 = (temperature_band t empty_recommendations)\<lparr>health_advice := H\<rparr>"
  proof (cases "truthy up")
    case True
    then have "contents refs s6 = (contents refs s5)\<lparr>health_advice := H\<rparr>"
      using health5 next5
      by (simp add: s6_def contents_def refs_def cells_in_place)
    with c5 show ?thesis by simp
  next
    case False
    then have "contents refs s6 = (contents refs s5)\<lparr>health_advice := H\<rparr>"
      using health5 H_empty by (simp add: s6_def contents_def refs_def)
    with c5 show ?thesis by simp
  qed
  have next7: "Suc (Suc (Suc (Suc n))) \<le> next_addr s7"
    using next5
    by (simp add: s7_def condition_advice_st_next s6_def next_addr_in_place)
  have c7: "contents refs s7 =
              condition_advice (str_lower d)
                ((temperature_band t empty_recommendations)\<lparr>health_advice := H\<rparr>)"
    by (simp add: s7_def condition_advice_st_contents [OF dist] c6)
  have bounds: "health_advice_ref refs < next_addr s7" "activities_ref refs < next_addr s7"
    "food_suggestions_ref refs < next_addr s7" "general_advice_ref refs < next_addr s7"
    using next7 by (simp_all add: refs_def)
  have frame7: "cells s7 a = cells s a" if "a < n" for a
  proof -
    have "cells s7 a = cells s6 a"
      using that by (simp add: s7_def condition_advice_st_frame refs_def)
    also have "\<dots> = cells s5 a"
      using that next5 by (simp add: s6_def cells_in_place)
    also have "\<dots> = cells s4 a"
      using that by (simp add: s5_def temperature_band_st_frame refs_def)
    also have "\<dots> = cells s a"
      using that by (simp add: s4_def)
    finally show ?thesis .
  qed
  have "contents refs' s' =
          air_quality_advice (get_air_quality wd)
            (condition_advice (str_lower d)
               ((temperature_band t empty_recommendations)\<lparr>health_advice := H\<rparr>))"
    using air_quality_advice_st_contents(1) [OF dist bounds final] c7 by simp
  then have pure: "get_comprehensive_recommendations wd up = Inr (contents refs' s')"
    by (simp add: get_comprehensive_recommendations_present [OF assms] H_def)
  have frame: "cells s' a = cells s a" if "a < next_addr s" for a
  proof -
    from that have "a < n" by (simp add: n_def)
    then have "a \<noteq> health_advice_ref refs" and "a < next_addr s7"
      using next7 by (simp_all add: refs_def)
    then have "cells s' a = cells s7 a"
      using air_quality_advice_st_frame [OF _ _ final] by simp
    with frame7 [OF \<open>a < n\<close>] show ?thesis by simp
  qed
  from run pure frame air_quality_advice_st_contents(2-5) [OF dist bounds final]
  show ?thesis by blast
qed

text \<open>Without a required key both models raise the same exception, on any store.\<close>

lemma get_comprehensive_recommendations_st_missing:
  assumes "temp wd = None \<or> humidity wd = None \<or> description wd = None"
  shows "\<exists>e. get_comprehensive_recommendations_st wd up s = Inl e
             \<and> get_comprehensive_recommendations wd up = Inl e"
  using assms
  by (cases "temp wd"; cases "humidity wd"; cases "description wd")
    (simp_all add: get_comprehensive_recommendations_st_def
      get_comprehensive_recommendations_def raising_def)

text \<open>
  C8. For every reading and every optional profile, two calls with these inputs, the second
  on whatever the first left in the store, return dictionaries whose four sequences are
  the same in contents and order, whatever the store held before the first call: each
  call builds lists of its own, reads no list that was there before, and changes none,
  so that the first result is still what it was after the second call. The contents are
  those of the first model; a reading without a required key raises the same exception
  in both models.
\<close>

theorem two_calls_same_contents:
  "two_calls wd up s =
     raising (get_comprehensive_recommendations wd up) (\<lambda>recs. Inr (recs, recs, recs))"
proof (cases "temp wd = None \<or> humidity wd = None \<or> description wd = None")
  case True
  from get_comprehensive_recommendations_st_missing [OF True]
  obtain e where "get_comprehensive_recommendations_st wd up s = Inl e"
    and "get_comprehensive_recommendations wd up = Inl e"
    by blast
  then show ?thesis
    by (simp add: two_calls_def raising_def)
next
  case False
  then obtain t h d where present:
    "temp wd = Some t" "humidity wd = Some h" "description wd = Some d"
    by auto
  from get_comprehensive_recommendations_st_present [OF present, of up s]
  obtain refs1 s1 where first: "get_comprehensive_recommendations_st wd up s = Inr (refs1, s1)"
    and pure1: "get_comprehensive_recommendations wd up = Inr (contents refs1 s1)"
    and bounds: "health_advice_ref refs1 < next_addr s1" "activities_ref refs1 < next_addr s1"
      "food_suggestions_ref refs1 < next_addr s1" "general_advice_ref refs1 < next_addr s1"
    by blast
  from get_comprehensive_recommendations_st_present [OF present, of up s1]
  obtain refs2 s2 where second:
    "get_comprehensive_recommendations_st wd up s1 = Inr (refs2, s2)"
    and pure2: "get_comprehensive_recommendations wd up = Inr (contents refs2 s2)"
    and frame: "\<forall>a < next_addr s1. cells s2 a = cells s1 a"
    by blast
  from bounds frame have "contents refs1 s2 = contents refs1 s1"
    by (simp add: contents_def)
  with first second pure1 pure2 show ?thesis
    by (simp add: two_calls_def raising_def)
qed

text \<open>
  The reading of the specification's first example with its asthma profile, on a store
  that holds two lists already.
\<close>

theorem two_calls_same_contents_witness:
  "two_calls
     \<lparr>temp = Some 38, humidity = Some 75, description = Some ''clear sky'',
      air_quality = Some 40, wind_speed = Some 3\<rparr>
     (Some [(''health_conditions'', [''asthma''])])
     \<lparr>cells = (\<lambda>a. [])(0 := [''x''], 1 := [''y'', ''z'']), next_addr = 2\<rparr>
   = Inr (\<lparr>health_advice = [msg_asthma_humidity], activities = hot_activities,
            food_suggestions = hot_food, general_advice = hot_general @ clear_general\<rparr>,
          \<lparr>health_advice = [msg_asthma_humidity], activities = hot_activities,
            food_suggestions = hot_food, general_advice = hot_general @ clear_general\<rparr>,
          \<lparr>health_advice = [msg_asthma_humidity], activities = hot_activities,
            food_suggestions = hot_food, general_advice = hot_general @ clear_general\<rparr>)"
proof -
  have lower: "str_lower ''clear sky'' = ''clear sky''" "str_lower ''asthma'' = ''asthma''"
    by code_simp+
  have "profile_recommendations 38 75 ''clear sky'' 40 [(''health_conditions'', [''asthma''])]
          = [msg_asthma_humidity]"
    by (simp add: profile_recommendations_def profile_get_def health_condition_step_def lower)
  then have "get_comprehensive_recommendations
       \<lparr>temp = Some 38, humidity = Some 75, description = Some ''clear sky'',
        air_quality = Some 40, wind_speed = Some 3\<rparr>
       (Some [(''health_conditions'', [''asthma''])])
     = Inr \<lparr>health_advice = [msg_asthma_humidity], activities = hot_activities,
            food_suggestions = hot_food, general_advice = hot_general @ clear_general\<rparr>"
    by (simp add: get_comprehensive_recommendations_present [of _ 38 75 "''clear sky''"] lower
        get_air_quality_def air_quality_advice_def condition_advice_def temperature_band_def
        empty_recommendations_def)
  then show ?thesis
    by (simp add: two_calls_same_contents raising_def)
qed

section \<open>The wind speed\<close>

text \<open>
  C9. For every two readings that agree on temperature, humidity, description and air
  quality index, whatever their wind speeds, and every optional profile, the health
  recommendations and the comprehensive recommendations are the same: the wind speed has
  no influence on any rule.
\<close>

theorem wind_speed_noninterference:
  assumes "temp wd = temp wd'" and "humidity wd = humidity wd'"
    and "description wd = description wd'" and "air_quality wd = air_quality wd'"
  shows "get_health_recommendations wd up = get_health_recommendations wd' up
         \<and> get_comprehensive_recommendations wd up = get_comprehensive_recommendations wd' up"
proof -
  have aq: "get_air_quality wd = get_air_quality wd'"
    using assms(4) by (simp add: get_air_quality_def)
  have health: "get_health_recommendations wd up = get_health_recommendations wd' up"
    using assms(1-3) aq
    by (simp add: get_health_recommendations_def cong: if_cong option.case_cong)
  have "get_comprehensive_recommendations wd up = get_comprehensive_recommendations wd' up"
    using assms(1-3) aq health
    by (simp add: get_comprehensive_recommendations_def cong: if_cong)
  with health show ?thesis by simp
qed

text \<open>Two readings that differ in the wind speed only, one of them without the key.\<close>

theorem wind_speed_noninterference_witness:
  "wind_speed \<lparr>temp = Some 38, humidity = Some 75, description = Some ''clear sky'',
               air_quality = Some 40, wind_speed = Some 3\<rparr>
     \<noteq> wind_speed \<lparr>temp = Some 38, humidity = Some 75, description = Some ''clear sky'',
                 air_quality = Some 40, wind_speed = None\<rparr>
   \<and> get_comprehensive_recommendations
       \<lparr>temp = Some 38, humidity = Some 75, description = Some ''clear sky'',
        air_quality = Some 40, wind_speed = Some 3\<rparr>
       (Some [(''health_conditions'', [''asthma''])])
     = get_comprehensive_recommendations
       \<lparr>temp = Some 38, humidity = Some 75, description = Some ''clear sky'',
        air_quality = Some 40, wind_speed = None\<rparr>
       (Some [(''health_conditions'', [''asthma''])])"
  using wind_speed_noninterference [of
      "\<lparr>temp = Some 38, humidity = Some 75, description = Some ''clear sky'',
        air_quality = Some 40, wind_speed = Some 3\<rparr>"
      "\<lparr>temp = Some 38, humidity = Some 75, description = Some ''clear sky'',
        air_quality = Some 40, wind_speed = None\<rparr>"
      "Some [(''health_conditions'', [''asthma''])]"]
  by simp

section \<open>The profile changes the health advice only\<close>

text \<open>
  C10. For every reading, the activities, the food suggestions and the general advice are
  the same whether the profile is absent or any profile is supplied: a profile has an
  influence on the health advice only.
\<close>

theorem profile_frame:
  assumes "temp wd = Some t" and "humidity wd = Some h" and "description wd = Some d"
  shows "\<exists>recs recs0.
           get_comprehensive_recommendations wd up = Inr recs
           \<and> get_comprehensive_recommendations wd None = Inr recs0
           \<and> activities recs = activities recs0
           \<and> food_suggestions recs = food_suggestions recs0
           \<and> general_advice recs = general_advice recs0"
  unfolding get_comprehensive_recommendations_present [OF assms]
  by (simp add: activities_air_quality_advice food_air_quality_advice
      general_air_quality_advice)

text \<open>
  The reading of the specification's first example with a profile that adds two entries
  to the health advice.
\<close>

theorem profile_frame_witness:
  "\<exists>recs recs0.
     get_comprehensive_recommendations
       \<lparr>temp = Some 38, humidity = Some 75, description = Some ''clear sky'',
        air_quality = Some 40, wind_speed = Some 3\<rparr>
       (Some [(''health_conditions'', [''asthma'']), (''allergies'', [''pollen''])]) = Inr recs
     \<and> get_comprehensive_recommendations
         \<lparr>temp = Some 38, humidity = Some 75, description = Some ''clear sky'',
          air_quality = Some 40, wind_speed = Some 3\<rparr> None = Inr recs0
     \<and> activities recs = activities recs0
     \<and> food_suggestions recs = food_suggestions recs0
     \<and> general_advice recs = general_advice recs0"
  using profile_frame [of
      "\<lparr>temp = Some 38, humidity = Some 75, description = Some ''clear sky'',
        air_quality = Some 40, wind_speed = Some 3\<rparr>" 38 75 "''clear sky''"
      "Some [(''health_conditions'', [''asthma'']), (''allergies'', [''pollen''])]"]
  by simp

end
